theory Spec2Isabelle
  imports Main
begin

section \<open>JavaScript values and strings\<close>

text \<open>
  The storage layer of the repository (class \<open>DatabaseStorage\<close>) handles untyped
  JavaScript values: the cells of result rows delivered by the database driver and the
  values of the \<open>filters\<close> object of \<open>getTableData\<close>.  A cell is \<open>null\<close>, a
  boolean, an integral number or a string; the driver never delivers \<open>undefined\<close>
  as a cell.  \<open>undefined\<close> does arise when a property is read that an object does not
  have, and as a filter value, so \<open>jsval\<close> adds it.  Numbers are restricted to
  integers (the integer column types of the engine); strings are lists of characters.
\<close>

datatype cell = CNull | CBool bool | CInt int | CStr string

datatype jsval = Undefined | Val cell

text \<open>A row object, as the list of its own properties in property order
  (\<open>Object.entries\<close>).\<close>

type_synonym row = "(string \<times> cell) list"

definition dquote :: char where
  "dquote = CHR 0x22"

definition newline :: char where
  "newline = CHR 0x0A"

definition backslash :: char where
  "backslash = CHR 0x5C"

text \<open>Decimal rendering of numbers (\<open>Number.prototype.toString\<close> on integers).\<close>

definition digit_char :: "nat \<Rightarrow> char" where
  "digit_char d = ''0123456789'' ! (d mod 10)"

fun string_of_nat :: "nat \<Rightarrow> string" where
  "string_of_nat n =
     (if n < 10 then [digit_char n]
      else string_of_nat (n div 10) @ [digit_char (n mod 10)])"

declare string_of_nat.simps [simp del]

definition string_of_int :: "int \<Rightarrow> string" where
  "string_of_int i =
     (if i < 0 then CHR ''-'' # string_of_nat (nat (- i)) else string_of_nat (nat i))"

text \<open>\<open>String(value)\<close> and the conversion a template literal applies.\<close>

fun js_String_cell :: "cell \<Rightarrow> string" where
  "js_String_cell CNull = ''null''"
| "js_String_cell (CBool b) = (if b then ''true'' else ''false'')"
| "js_String_cell (CInt i) = string_of_int i"
| "js_String_cell (CStr s) = s"

fun js_String :: "jsval \<Rightarrow> string" where
  "js_String Undefined = ''undefined''"
| "js_String (Val c) = js_String_cell c"

text \<open>\<open>Array.prototype.join\<close> on an array of strings.\<close>

fun join :: "string \<Rightarrow> string list \<Rightarrow> string" where
  "join sep [] = []"
| "join sep [x] = x"
| "join sep (x # y # ys) = x @ sep @ join sep (y # ys)"

text \<open>\<open>String.prototype.includes\<close>: does \<open>sub\<close> occur in \<open>s\<close> at some position.\<close>

fun str_includes :: "string \<Rightarrow> string \<Rightarrow> bool" where
  "str_includes [] sub = (sub = [])"
| "str_includes (c # cs) sub = (take (length sub) (c # cs) = sub \<or> str_includes cs sub)"

text \<open>\<open>stringValue.replace(/"/g, '""')\<close>: every double quote is doubled.\<close>

fun replace_quotes :: "string \<Rightarrow> string" where
  "replace_quotes [] = []"
| "replace_quotes (c # cs) =
     (if c = dquote then dquote # dquote # replace_quotes cs else c # replace_quotes cs)"

text \<open>Property read \<open>row[header]\<close>: \<open>undefined\<close> when the row has no such
  property.\<close>

definition row_get :: "row \<Rightarrow> string \<Rightarrow> jsval" where
  "row_get r header = (case map_of r header of None \<Rightarrow> Undefined | Some c \<Rightarrow> Val c)"

section \<open>Serialisation of exported rows\<close>

subsection \<open>CSV, as \<open>exportTableData\<close> builds it\<close>

text \<open>The callback of \<open>headers.map\<close> in \<open>exportTableData\<close>: one CSV field.\<close>

definition csv_value :: "row \<Rightarrow> string \<Rightarrow> string" where
  "csv_value r header =
     (let value = row_get r header in
      if value = Val CNull \<or> value = Undefined then []
      else
        let stringValue = js_String value in
        if str_includes stringValue '','' \<or> str_includes stringValue [dquote]
           \<or> str_includes stringValue [newline]
        then [dquote] @ replace_quotes stringValue @ [dquote]
        else stringValue)"

text \<open>The \<open>forEach\<close> loop pushing one joined line per row onto \<open>csvRows\<close>.\<close>

fun csv_forEach :: "string list \<Rightarrow> row list \<Rightarrow> string list \<Rightarrow> string list" where
  "csv_forEach headers [] csvRows = csvRows"
| "csv_forEach headers (r # rs) csvRows =
     csv_forEach headers rs (csvRows @ [join '','' (map (csv_value r) headers)])"

definition export_csv :: "row list \<Rightarrow> string" where
  "export_csv rows =
     (case rows of
        [] \<Rightarrow> []
      | first # _ \<Rightarrow>
          let headers = map fst first;
              csvRows = [join '','' headers]
          in join [newline] (csv_forEach headers rows csvRows))"

subsection \<open>JSON, as \<open>JSON.stringify(rows, null, 2)\<close> produces it\<close>

text \<open>
  \<open>JSON.stringify\<close> is the language's own serialiser; its algorithm is followed here
  on the values that occur (an array of row objects with scalar cells), with the
  indentation (\<open>indent\<close>, \<open>stepback\<close>) and the gap of two spaces it is called with.
\<close>

definition hex_char :: "nat \<Rightarrow> char" where
  "hex_char d = ''0123456789abcdef'' ! (d mod 16)"

definition json_quote_char :: "char \<Rightarrow> string" where
  "json_quote_char c =
     (if c = CHR 0x08 then [backslash, CHR ''b'']
      else if c = CHR 0x09 then [backslash, CHR ''t'']
      else if c = CHR 0x0A then [backslash, CHR ''n'']
      else if c = CHR 0x0C then [backslash, CHR ''f'']
      else if c = CHR 0x0D then [backslash, CHR ''r'']
      else if c = dquote then [backslash, dquote]
      else if c = backslash then [backslash, backslash]
      else if (of_char c :: nat) < 32
        then [backslash, CHR ''u'', CHR ''0'', CHR ''0'',
              hex_char ((of_char c :: nat) div 16), hex_char (of_char c :: nat)]
      else [c])"

definition QuoteJSONString :: "string \<Rightarrow> string" where
  "QuoteJSONString s = [dquote] @ concat (map json_quote_char s) @ [dquote]"

definition gap :: string where
  "gap = ''  ''"

fun SerializeJSONProperty :: "cell \<Rightarrow> string" where
  "SerializeJSONProperty CNull = ''null''"
| "SerializeJSONProperty (CBool b) = (if b then ''true'' else ''false'')"
| "SerializeJSONProperty (CInt i) = string_of_int i"
| "SerializeJSONProperty (CStr s) = QuoteJSONString s"

definition SerializeJSONObject :: "row \<Rightarrow> string \<Rightarrow> string" where
  "SerializeJSONObject r stepback =
     (let indent = stepback @ gap;
          partial = map (\<lambda>(k, v). QuoteJSONString k @ '':'' @ '' '' @ SerializeJSONProperty v) r
      in if partial = [] then ''{}''
         else
           let separator = '','' @ [newline] @ indent
           in ''{'' @ [newline] @ indent @ join separator partial @ [newline] @ stepback @ ''}'')"

definition SerializeJSONArray :: "row list \<Rightarrow> string \<Rightarrow> string" where
  "SerializeJSONArray rows stepback =
     (let indent = stepback @ gap;
          partial = map (\<lambda>r. SerializeJSONObject r indent) rows
      in if partial = [] then ''[]''
         else
           let separator = '','' @ [newline] @ indent
           in ''['' @ [newline] @ indent @ join separator partial @ [newline] @ stepback @ '']'')"

definition export_json :: "row list \<Rightarrow> string" where
  "export_json rows = SerializeJSONArray rows []"

subsection \<open>The two formats\<close>

datatype export_format = Csv | Json

text \<open>The serialising half of \<open>exportTableData\<close>, applied to \<open>result.rows\<close>.\<close>

definition serialize_rows :: "export_format \<Rightarrow> row list \<Rightarrow> string" where
  "serialize_rows format rows = (if format = Json then export_json rows else export_csv rows)"

section \<open>The storage layer: data, environment and state\<close>

subsection \<open>Tables of the local metadata database (\<open>shared/schema.ts\<close>)\<close>

text \<open>A row of table \<open>connections\<close>; a nullable column is an option.\<close>

record connection =
  c_id :: string
  c_name :: string
  c_host :: string
  c_port :: int
  c_database :: string
  c_username :: string
  c_password :: string
  c_ssl :: "bool option"
  c_createdAt :: "nat option"
  c_updatedAt :: "nat option"

text \<open>\<open>InsertConnection\<close>: \<open>port\<close> and \<open>ssl\<close> may be left out (\<open>None\<close>); \<open>ssl\<close> may
  also be given as \<open>null\<close> (\<open>Some None\<close>).\<close>

record insert_connection =
  i_name :: string
  i_host :: string
  i_port :: "int option"
  i_database :: string
  i_username :: string
  i_password :: string
  i_ssl :: "bool option option"

text \<open>\<open>Partial<InsertConnection>\<close>: every field may be left out.\<close>

record partial_connection =
  u_name :: "string option"
  u_host :: "string option"
  u_port :: "int option"
  u_database :: "string option"
  u_username :: "string option"
  u_password :: "string option"
  u_ssl :: "bool option option"

text \<open>A row of table \<open>query_history\<close> and \<open>InsertQueryHistory\<close>.\<close>

record history_entry =
  h_id :: string
  h_connectionId :: "string option"
  h_query :: string
  h_executionTime :: "nat option"
  h_rowsAffected :: "nat option"
  h_success :: bool
  h_error :: "string option"
  h_createdAt :: "nat option"

record insert_history =
  ih_connectionId :: "string option"
  ih_query :: string
  ih_executionTime :: "nat option"
  ih_rowsAffected :: "nat option"
  ih_success :: bool
  ih_error :: "string option"

subsection \<open>Pools and the remote engine\<close>

text \<open>The options object every \<open>new Pool({...})\<close> of the source is given: six fields,
  none of them a timeout.\<close>

record pool_config =
  pc_host :: string
  pc_port :: "int option"
  pc_database :: string
  pc_user :: string
  pc_password :: string
  pc_ssl :: "bool option"

text \<open>A \<open>Pool\<close> object: its identity (the order of construction) and the options it
  was built from.\<close>

record pool =
  pool_id :: nat
  pool_cfg :: pool_config

text \<open>What a thrown value is to the code: an \<open>Error\<close> instance with its message, or
  anything else.\<close>

datatype thrown = Error string | NonError

datatype 'a outcome = Returns 'a | Throws thrown

text \<open>What \<open>pool.query\<close> resolves to: \<open>rows\<close>, \<open>rowCount\<close> (may be \<open>null\<close>) and
  the names of \<open>fields\<close> (may be missing).\<close>

record query_result_raw =
  r_rows :: "row list"
  r_rowCount :: "nat option"
  r_fields :: "string list option"

text \<open>The remote engine answers a statement or rejects it, after some milliseconds.\<close>

datatype reply = Answer query_result_raw nat | Reject thrown nat

text \<open>The world outside the process: whether constructing or ending a pool throws, and
  what the engine behind a pool's options replies to a statement text with its bound
  parameters.\<close>

record env =
  pool_ctor :: "pool_config \<Rightarrow> thrown option"
  engine :: "pool_config \<Rightarrow> string \<Rightarrow> cell list \<Rightarrow> reply"
  pool_end_err :: "pool_config \<Rightarrow> thrown option"

text \<open>\<open>QueryResult\<close> of \<open>shared/schema.ts\<close>.\<close>

record query_result =
  qr_rows :: "row list"
  qr_rowCount :: nat
  qr_executionTime :: nat
  qr_columns :: "string list"

subsection \<open>The state\<close>

text \<open>
  The two tables, the private map \<open>connectionPools\<close> of \<open>DatabaseStorage\<close>, and
  what the process has done to the outside: how many pools it has constructed, which of
  them it has ended, and which statements it has passed to which pool, in order.
  \<open>clock\<close> is what \<open>Date.now()\<close> reads; \<open>uuid_count\<close> numbers the generated row
  ids.
\<close>

record storage =
  connections :: "string \<rightharpoonup> connection"
  queryHistory :: "history_entry list"
  connectionPools :: "string \<rightharpoonup> pool"
  pool_count :: nat
  ended :: "nat list"
  sent :: "(nat \<times> string \<times> cell list) list"
  clock :: nat
  uuid_count :: nat

definition gen_random_uuid :: "nat \<Rightarrow> string" where
  "gen_random_uuid n = ''uuid-'' @ string_of_nat n"

text \<open>The pools that have been constructed and not ended.\<close>

definition live_pools :: "storage \<Rightarrow> nat list" where
  "live_pools s = filter (\<lambda>p. p \<notin> set (ended s)) [0..<pool_count s]"

subsection \<open>Pool primitives\<close>

definition new_Pool :: "env \<Rightarrow> pool_config \<Rightarrow> storage \<Rightarrow> pool outcome \<times> storage" where
  "new_Pool E cfg s =
     (case pool_ctor E cfg of
        Some t \<Rightarrow> (Throws t, s)
      | None \<Rightarrow> (Returns \<lparr>pool_id = pool_count s, pool_cfg = cfg\<rparr>,
                 s\<lparr>pool_count := Suc (pool_count s)\<rparr>))"

definition pool_query ::
  "env \<Rightarrow> pool \<Rightarrow> string \<Rightarrow> cell list \<Rightarrow> storage \<Rightarrow> query_result_raw outcome \<times> storage" where
  "pool_query E p text params s =
     (case engine E (pool_cfg p) text params of
        Answer result d \<Rightarrow>
          (Returns result, s\<lparr>sent := sent s @ [(pool_id p, text, params)], clock := clock s + d\<rparr>)
      | Reject t d \<Rightarrow>
          (Throws t, s\<lparr>sent := sent s @ [(pool_id p, text, params)], clock := clock s + d\<rparr>))"

definition pool_end :: "env \<Rightarrow> pool \<Rightarrow> storage \<Rightarrow> unit outcome \<times> storage" where
  "pool_end E p s =
     (case pool_end_err E (pool_cfg p) of
        Some t \<Rightarrow> (Throws t, s)
      | None \<Rightarrow> (Returns (), s\<lparr>ended := ended s @ [pool_id p]\<rparr>))"

section \<open>The operations of \<open>DatabaseStorage\<close>\<close>

subsection \<open>Connection records\<close>

definition getConnection :: "string \<Rightarrow> storage \<Rightarrow> connection option" where
  "getConnection cid s = connections s cid"

definition duplicate_key :: string where
  "duplicate_key = ''duplicate key value violates unique constraint''"

definition foreign_key_violation :: string where
  "foreign_key_violation = ''violates foreign key constraint''"

text \<open>\<open>createConnection\<close>: the row gets a generated id and the column defaults
  (\<open>port\<close> 5432, \<open>ssl\<close> false, both timestamps now).\<close>

definition createConnection ::
  "insert_connection \<Rightarrow> storage \<Rightarrow> connection outcome \<times> storage" where
  "createConnection ins s =
     (let newConnection =
            \<lparr>c_id = gen_random_uuid (uuid_count s),
             c_name = i_name ins,
             c_host = i_host ins,
             c_port = (case i_port ins of None \<Rightarrow> 5432 | Some p \<Rightarrow> p),
             c_database = i_database ins,
             c_username = i_username ins,
             c_password = i_password ins,
             c_ssl = (case i_ssl ins of None \<Rightarrow> Some False | Some v \<Rightarrow> v),
             c_createdAt = Some (clock s),
             c_updatedAt = Some (clock s)\<rparr>
      in if connections s (c_id newConnection) = None
         then (Returns newConnection,
               s\<lparr>connections := (connections s)(c_id newConnection \<mapsto> newConnection),
                 uuid_count := Suc (uuid_count s)\<rparr>)
         else (Throws (Error duplicate_key), s\<lparr>uuid_count := Suc (uuid_count s)\<rparr>))"

text \<open>\<open>updateConnection\<close>: the given fields are set on the row with that id and
  \<open>updatedAt\<close> is refreshed; nothing else is touched.  When no row has the id, the
  destructured result is \<open>undefined\<close> (\<open>None\<close>).\<close>

definition updateConnection ::
  "string \<Rightarrow> partial_connection \<Rightarrow> storage \<Rightarrow> connection option outcome \<times> storage" where
  "updateConnection cid upd s =
     (case connections s cid of
        None \<Rightarrow> (Returns None, s)
      | Some c \<Rightarrow>
          let updatedConnection =
                c\<lparr>c_name := (case u_name upd of None \<Rightarrow> c_name c | Some v \<Rightarrow> v),
                  c_host := (case u_host upd of None \<Rightarrow> c_host c | Some v \<Rightarrow> v),
                  c_port := (case u_port upd of None \<Rightarrow> c_port c | Some v \<Rightarrow> v),
                  c_database := (case u_database upd of None \<Rightarrow> c_database c | Some v \<Rightarrow> v),
                  c_username := (case u_username upd of None \<Rightarrow> c_username c | Some v \<Rightarrow> v),
                  c_password := (case u_password upd of None \<Rightarrow> c_password c | Some v \<Rightarrow> v),
                  c_ssl := (case u_ssl upd of None \<Rightarrow> c_ssl c | Some v \<Rightarrow> v),
                  c_updatedAt := Some (clock s)\<rparr>
          in (Returns (Some updatedConnection),
              s\<lparr>connections := (connections s)(cid \<mapsto> updatedConnection)\<rparr>))"

text \<open>\<open>deleteConnection\<close>: first the entry of \<open>connectionPools\<close>, then the row.  The
  row cannot be deleted while rows of \<open>query_history\<close> reference it.\<close>

definition deleteConnection :: "string \<Rightarrow> storage \<Rightarrow> unit outcome \<times> storage" where
  "deleteConnection cid s =
     (let s1 = s\<lparr>connectionPools := (connectionPools s)(cid := None)\<rparr>
      in if Some cid \<in> set (map h_connectionId (queryHistory s1))
         then (Throws (Error foreign_key_violation), s1)
         else (Returns (), s1\<lparr>connections := (connections s1)(cid := None)\<rparr>))"

subsection \<open>Testing credentials and acquiring a pool\<close>

text \<open>The options \<open>testConnection\<close> passes to \<open>new Pool\<close>; a missing \<open>ssl\<close> and
  \<open>ssl: null\<close> are both no TLS.\<close>

definition config_of_insert :: "insert_connection \<Rightarrow> pool_config" where
  "config_of_insert connection =
     \<lparr>pc_host = i_host connection,
      pc_port = i_port connection,
      pc_database = i_database connection,
      pc_user = i_username connection,
      pc_password = i_password connection,
      pc_ssl = (case i_ssl connection of None \<Rightarrow> None | Some v \<Rightarrow> v)\<rparr>"

definition config_of_connection :: "connection \<Rightarrow> pool_config" where
  "config_of_connection connection =
     \<lparr>pc_host = c_host connection,
      pc_port = Some (c_port connection),
      pc_database = c_database connection,
      pc_user = c_username connection,
      pc_password = c_password connection,
      pc_ssl = c_ssl connection\<rparr>"

text \<open>\<open>testConnection\<close>: everything happens inside \<open>try\<close>, and \<open>catch\<close> returns
  \<open>false\<close>.\<close>

definition testConnection :: "env \<Rightarrow> insert_connection \<Rightarrow> storage \<Rightarrow> bool outcome \<times> storage" where
  "testConnection E connection s =
     (case new_Pool E (config_of_insert connection) s of
        (Throws error, s1) \<Rightarrow> (Returns False, s1)
      | (Returns pool, s1) \<Rightarrow>
          (case pool_query E pool ''SELECT 1'' [] s1 of
             (Throws error, s2) \<Rightarrow> (Returns False, s2)
           | (Returns result, s2) \<Rightarrow>
               (case pool_end E pool s2 of
                  (Throws error, s3) \<Rightarrow> (Returns False, s3)
                | (Returns u, s3) \<Rightarrow> (Returns True, s3))))"

text \<open>\<open>getConnectionPool\<close>: the pool stored for the id if there is one; otherwise the
  record is looked up, a pool is built from it and stored.\<close>

definition getConnectionPool :: "env \<Rightarrow> string \<Rightarrow> storage \<Rightarrow> pool outcome \<times> storage" where
  "getConnectionPool E connectionId s =
     (case connectionPools s connectionId of
        Some pool \<Rightarrow> (Returns pool, s)
      | None \<Rightarrow>
          (case getConnection connectionId s of
             None \<Rightarrow> (Throws (Error ''Connection not found''), s)
           | Some connection \<Rightarrow>
               (case new_Pool E (config_of_connection connection) s of
                  (Throws t, s1) \<Rightarrow> (Throws t, s1)
                | (Returns pool, s1) \<Rightarrow>
                    (Returns pool,
                     s1\<lparr>connectionPools := (connectionPools s1)(connectionId \<mapsto> pool)\<rparr>))))"

subsection \<open>History\<close>

text \<open>The columns \<open>execution_time\<close> and \<open>rows_affected\<close> are 32-bit \<open>integer\<close>
  columns: the database refuses a row whose value is above their range.\<close>

definition integer_max :: nat where
  "integer_max = 2147483647"

definition fits_integer :: "nat option \<Rightarrow> bool" where
  "fits_integer v = (case v of None \<Rightarrow> True | Some n \<Rightarrow> n \<le> integer_max)"

definition integer_out_of_range :: string where
  "integer_out_of_range = ''integer out of range''"

text \<open>\<open>saveQueryHistory\<close>: one row is inserted, with a generated id and the time of
  insertion.  The values must fit their columns, and the column \<open>connection_id\<close>
  references \<open>connections.id\<close>.\<close>

definition saveQueryHistory ::
  "insert_history \<Rightarrow> storage \<Rightarrow> history_entry outcome \<times> storage" where
  "saveQueryHistory history s =
     (if fits_integer (ih_executionTime history) \<and> fits_integer (ih_rowsAffected history)
      then
        (if (case ih_connectionId history of None \<Rightarrow> False | Some c \<Rightarrow> connections s c = None)
         then (Throws (Error foreign_key_violation), s)
         else
           let saved =
                 \<lparr>h_id = gen_random_uuid (uuid_count s),
                  h_connectionId = ih_connectionId history,
                  h_query = ih_query history,
                  h_executionTime = ih_executionTime history,
                  h_rowsAffected = ih_rowsAffected history,
                  h_success = ih_success history,
                  h_error = ih_error history,
                  h_createdAt = Some (clock s)\<rparr>
           in (Returns saved,
               s\<lparr>queryHistory := queryHistory s @ [saved], uuid_count := Suc (uuid_count s)\<rparr>))
      else (Throws (Error integer_out_of_range), s))"

subsection \<open>Running statements\<close>

definition rowCount_or_0 :: "query_result_raw \<Rightarrow> nat" where
  "rowCount_or_0 result = (case r_rowCount result of None \<Rightarrow> 0 | Some n \<Rightarrow> n)"

definition field_names :: "query_result_raw \<Rightarrow> string list" where
  "field_names result = (case r_fields result of None \<Rightarrow> [] | Some names \<Rightarrow> names)"

text \<open>The \<open>catch\<close> block of \<open>executeQuery\<close>.\<close>

definition executeQuery_catch ::
  "string \<Rightarrow> string \<Rightarrow> nat \<Rightarrow> thrown \<Rightarrow> storage \<Rightarrow> query_result outcome \<times> storage" where
  "executeQuery_catch connectionId query startTime error s =
     (let executionTime = clock s - startTime;
          errorMessage = (case error of Error message \<Rightarrow> message | NonError \<Rightarrow> ''Unknown error'')
      in (case saveQueryHistory
                 \<lparr>ih_connectionId = Some connectionId,
                  ih_query = query,
                  ih_executionTime = Some executionTime,
                  ih_rowsAffected = Some 0,
                  ih_success = False,
                  ih_error = Some errorMessage\<rparr> s of
            (Throws t, s1) \<Rightarrow> (Throws t, s1)
          | (Returns saved, s1) \<Rightarrow> (Throws error, s1)))"

text \<open>\<open>executeQuery\<close>: the pool is acquired before \<open>try\<close>; the statement and the
  saving of the success entry are inside it.\<close>

definition executeQuery ::
  "env \<Rightarrow> string \<Rightarrow> string \<Rightarrow> storage \<Rightarrow> query_result outcome \<times> storage" where
  "executeQuery E connectionId query s =
     (case getConnectionPool E connectionId s of
        (Throws t, s1) \<Rightarrow> (Throws t, s1)
      | (Returns pool, s1) \<Rightarrow>
          (let startTime = clock s1
           in (case pool_query E pool query [] s1 of
                 (Throws error, s2) \<Rightarrow>
                   executeQuery_catch connectionId query startTime error s2
               | (Returns result, s2) \<Rightarrow>
                   (let executionTime = clock s2 - startTime
                    in (case saveQueryHistory
                              \<lparr>ih_connectionId = Some connectionId,
                               ih_query = query,
                               ih_executionTime = Some executionTime,
                               ih_rowsAffected = Some (rowCount_or_0 result),
                               ih_success = True,
                               ih_error = None\<rparr> s2 of
                          (Throws error, s3) \<Rightarrow>
                            executeQuery_catch connectionId query startTime error s3
                        | (Returns saved, s3) \<Rightarrow>
                            (Returns \<lparr>qr_rows = r_rows result,
                                      qr_rowCount = rowCount_or_0 result,
                                      qr_executionTime = executionTime,
                                      qr_columns = field_names result\<rparr>, s3))))))"

subsection \<open>Introspection\<close>

definition getDatabases :: "env \<Rightarrow> string \<Rightarrow> storage \<Rightarrow> jsval list outcome \<times> storage" where
  "getDatabases E connectionId s =
     (case getConnectionPool E connectionId s of
        (Throws t, s1) \<Rightarrow> (Throws t, s1)
      | (Returns pool, s1) \<Rightarrow>
          (case pool_query E pool
                  ''SELECT datname FROM pg_database WHERE datistemplate = false'' [] s1 of
             (Throws t, s2) \<Rightarrow> (Throws t, s2)
           | (Returns result, s2) \<Rightarrow>
               (Returns (map (\<lambda>row. row_get row ''datname'') (r_rows result)), s2)))"

text \<open>\<open>parseInt\<close> with no radix: leading white space, a sign, an optional \<open>0x\<close>, then
  the longest run of digits; \<open>None\<close> is \<open>NaN\<close>.\<close>

definition is_space :: "char \<Rightarrow> bool" where
  "is_space c = (c = CHR '' '' \<or> c = CHR 0x09 \<or> c = CHR 0x0A \<or> c = CHR 0x0B
                 \<or> c = CHR 0x0C \<or> c = CHR 0x0D)"

definition index_of :: "char \<Rightarrow> string \<Rightarrow> nat option" where
  "index_of c cs = (if c \<in> set cs then Some (length (takeWhile (\<lambda>x. x \<noteq> c) cs)) else None)"

definition digit_of :: "nat \<Rightarrow> char \<Rightarrow> nat option" where
  "digit_of radix c =
     (if radix = 16
      then (case index_of c ''0123456789abcdef'' of
              Some d \<Rightarrow> Some d
            | None \<Rightarrow> (case index_of c ''ABCDEF'' of Some d \<Rightarrow> Some (10 + d) | None \<Rightarrow> None))
      else index_of c ''0123456789'')"

definition parseInt :: "string \<Rightarrow> int option" where
  "parseInt str =
     (let s1 = dropWhile is_space str;
          negative = (take 1 s1 = ''-'');
          s2 = (if take 1 s1 = ''-'' \<or> take 1 s1 = ''+'' then drop 1 s1 else s1);
          hex = (take 2 s2 = ''0x'' \<or> take 2 s2 = ''0X'');
          radix = (if hex then 16 else 10);
          s3 = (if hex then drop 2 s2 else s2);
          z = takeWhile (\<lambda>c. digit_of radix c \<noteq> None) s3;
          n = foldl (\<lambda>a c. a * radix + (case digit_of radix c of None \<Rightarrow> 0 | Some d \<Rightarrow> d)) 0 z
      in if z = [] then None else Some (if negative then - int n else int n))"

text \<open>\<open>DatabaseTable\<close>, and \<open>getTables\<close> with its statement text, line by line.\<close>

record database_table =
  t_name :: jsval
  t_schema :: jsval
  t_rowCount :: int

definition getTables_sql :: string where
  "getTables_sql =
     [newline] @
     ''      SELECT '' @ [newline] @
     ''        t.table_name as name,'' @ [newline] @
     ''        t.table_schema as schema,'' @ [newline] @
     ''        COALESCE(c.reltuples, 0)::bigint as row_count'' @ [newline] @
     ''      FROM information_schema.tables t'' @ [newline] @
     ''      LEFT JOIN pg_class c ON c.relname = t.table_name'' @ [newline] @
     ''      WHERE t.table_type = 'BASE TABLE' '' @ [newline] @
     ''      AND t.table_schema NOT IN ('information_schema', 'pg_catalog')'' @ [newline] @
     ''      ORDER BY t.table_name'' @ [newline] @
     ''    ''"

definition getTables ::
  "env \<Rightarrow> string \<Rightarrow> string \<Rightarrow> storage \<Rightarrow> database_table list outcome \<times> storage" where
  "getTables E connectionId database s =
     (case getConnectionPool E connectionId s of
        (Throws t, s1) \<Rightarrow> (Throws t, s1)
      | (Returns pool, s1) \<Rightarrow>
          (case pool_query E pool getTables_sql [] s1 of
             (Throws t, s2) \<Rightarrow> (Throws t, s2)
           | (Returns result, s2) \<Rightarrow>
               (Returns
                  (map (\<lambda>row.
                          \<lparr>t_name = row_get row ''name'',
                           t_schema = row_get row ''schema'',
                           t_rowCount =
                             (case parseInt (js_String (row_get row ''row_count'')) of
                                None \<Rightarrow> 0
                              | Some n \<Rightarrow> n)\<rparr>)
                       (r_rows result)),
                s2)))"

subsection \<open>Browsing a table\<close>

text \<open>The \<open>map\<close> callback over the filter entries that passed the \<open>filter\<close>: it
  counts the parameter, pushes the value and returns the condition.\<close>

fun conditions_map ::
  "(string \<times> jsval) list \<Rightarrow> nat \<Rightarrow> cell list \<Rightarrow> string list \<times> nat \<times> cell list" where
  "conditions_map [] paramCount values = ([], paramCount, values)"
| "conditions_map ((key, v) # entries) paramCount values =
     (let paramCount1 = paramCount + 1;
          values1 = values @ [CStr (''%'' @ js_String v @ ''%'')];
          condition = key @ ''::text ILIKE $'' @ string_of_nat paramCount1;
          (conditions, paramCount2, values2) = conditions_map entries paramCount1 values1
      in (condition # conditions, paramCount2, values2))"

definition filter_present :: "string \<times> jsval \<Rightarrow> bool" where
  "filter_present entry = (snd entry \<noteq> Undefined \<and> snd entry \<noteq> Val (CStr []))"

text \<open>The statement text and the parameter array \<open>getTableData\<close> builds.\<close>

definition table_query ::
  "string \<Rightarrow> int \<Rightarrow> int \<Rightarrow> (string \<times> jsval) list option \<Rightarrow> string \<times> cell list" where
  "table_query table offset limit filters =
     (let values0 = [CInt limit, CInt offset];
          paramCount0 = 2;
          (whereClause, values) =
            (case filters of
               None \<Rightarrow> ([], values0)
             | Some entries \<Rightarrow>
                 if length entries > 0
                 then
                   (let (conditions, paramCount, values1) =
                          conditions_map (filter filter_present entries) paramCount0 values0
                    in if length conditions > 0
                       then (''WHERE '' @ join '' AND '' conditions, values1)
                       else ([], values1))
                 else ([], values0))
      in (''SELECT * FROM '' @ table @ '' '' @ whereClause @ '' LIMIT $1 OFFSET $2'', values))"

definition getTableData ::
  "env \<Rightarrow> string \<Rightarrow> string \<Rightarrow> string \<Rightarrow> int \<Rightarrow> int \<Rightarrow> (string \<times> jsval) list option \<Rightarrow> storage
   \<Rightarrow> query_result outcome \<times> storage" where
  "getTableData E connectionId database table offset limit filters s =
     (case getConnectionPool E connectionId s of
        (Throws t, s1) \<Rightarrow> (Throws t, s1)
      | (Returns pool, s1) \<Rightarrow>
          (let startTime = clock s1;
               (query, values) = table_query table offset limit filters
           in (case pool_query E pool query values s1 of
                 (Throws t, s2) \<Rightarrow> (Throws t, s2)
               | (Returns result, s2) \<Rightarrow>
                   (let executionTime = clock s2 - startTime
                    in (Returns \<lparr>qr_rows = r_rows result,
                                  qr_rowCount = rowCount_or_0 result,
                                  qr_executionTime = executionTime,
                                  qr_columns = field_names result\<rparr>, s2)))))"

subsection \<open>Exporting a table\<close>

definition exportTableData ::
  "env \<Rightarrow> string \<Rightarrow> string \<Rightarrow> string \<Rightarrow> export_format \<Rightarrow> storage \<Rightarrow> string outcome \<times> storage" where
  "exportTableData E connectionId database table format s =
     (case getConnectionPool E connectionId s of
        (Throws t, s1) \<Rightarrow> (Throws t, s1)
      | (Returns pool, s1) \<Rightarrow>
          (case pool_query E pool (''SELECT * FROM '' @ table) [] s1 of
             (Throws t, s2) \<Rightarrow> (Throws t, s2)
           | (Returns result, s2) \<Rightarrow> (Returns (serialize_rows format (r_rows result)), s2)))"

subsection \<open>How a browse request reaches \<open>getTableData\<close>\<close>

text \<open>The client (\<open>DatabaseService.getTableData\<close>) appends each option that is set and
  truthy as a query parameter.\<close>

record browse_options =
  o_offset :: "nat option"
  o_limit :: "nat option"
  o_search :: "string option"
  o_column :: "string option"
  o_sort :: "string option"

definition truthy_number :: "string \<Rightarrow> nat option \<Rightarrow> (string \<times> string) list" where
  "truthy_number name v =
     (case v of None \<Rightarrow> [] | Some n \<Rightarrow> if n = 0 then [] else [(name, string_of_nat n)])"

definition truthy_string :: "string \<Rightarrow> string option \<Rightarrow> (string \<times> string) list" where
  "truthy_string name v =
     (case v of None \<Rightarrow> [] | Some x \<Rightarrow> if x = [] then [] else [(name, x)])"

definition client_params :: "browse_options \<Rightarrow> (string \<times> string) list" where
  "client_params options =
     truthy_number ''offset'' (o_offset options) @
     truthy_number ''limit'' (o_limit options) @
     truthy_string ''search'' (o_search options) @
     truthy_string ''column'' (o_column options) @
     truthy_string ''sort'' (o_sort options)"

text \<open>The route handler takes \<open>offset\<close> and \<open>limit\<close> out of \<open>req.query\<close> and passes all
  the rest on as \<open>filters\<close>.\<close>

definition route_filters :: "(string \<times> string) list \<Rightarrow> (string \<times> jsval) list" where
  "route_filters req_query =
     map (\<lambda>(k, v). (k, Val (CStr v)))
         (filter (\<lambda>(k, v). k \<noteq> ''offset'' \<and> k \<noteq> ''limit'') req_query)"

section \<open>Notions used to state the properties\<close>

text \<open>Whether the engine answered, and the message \<open>executeQuery\<close> records for a
  thrown value.\<close>

definition answers :: "reply \<Rightarrow> bool" where
  "answers r = (case r of Answer result d \<Rightarrow> True | Reject t d \<Rightarrow> False)"



subsection \<open>Example inputs\<close>

definition example_insert :: insert_connection where
  "example_insert =
     \<lparr>i_name = ''main'', i_host = ''db.old.example'', i_port = None, i_database = ''app'',
      i_username = ''admin'', i_password = ''old-secret'', i_ssl = None\<rparr>"

definition example_rows :: "row list" where
  "example_rows = [[(''id'', CInt 1), (''name'', CStr ''A,B'')]]"

definition example_result :: query_result_raw where
  "example_result =
     \<lparr>r_rows = example_rows, r_rowCount = Some 1, r_fields = Some [''id'', ''name'']\<rparr>"

text \<open>An engine that answers every statement with the example result after \<open>d\<close>
  milliseconds, and one that rejects every statement.\<close>

definition steady_env :: "nat \<Rightarrow> env" where
  "steady_env d =
     \<lparr>pool_ctor = (\<lambda>cfg. None),
      engine = (\<lambda>cfg text params. Answer example_result d),
      pool_end_err = (\<lambda>cfg. None)\<rparr>"

definition rejecting_env :: env where
  "rejecting_env =
     \<lparr>pool_ctor = (\<lambda>cfg. None),
      engine = (\<lambda>cfg text params. Reject (Error ''syntax error at or near SELEC'') 3),
      pool_end_err = (\<lambda>cfg. None)\<rparr>"

text \<open>The state of a fresh process, and the state after one connection has been
  registered in it (its generated id is \<open>uuid-0\<close>).\<close>

definition empty_storage :: storage where
  "empty_storage =
     \<lparr>connections = Map.empty, queryHistory = [], connectionPools = Map.empty,
      pool_count = 0, ended = [], sent = [], clock = 1000, uuid_count = 0\<rparr>"

definition registered :: storage where
  "registered = snd (createConnection example_insert empty_storage)"

definition example_config :: pool_config where
  "example_config =
     \<lparr>pc_host = ''db.old.example'', pc_port = Some 5432, pc_database = ''app'',
      pc_user = ''admin'', pc_password = ''old-secret'', pc_ssl = Some False\<rparr>"

definition example_pool :: pool where
  "example_pool = \<lparr>pool_id = 0, pool_cfg = example_config\<rparr>"

subsection \<open>The serialisation of an export, as the specification words it\<close>

text \<open>Items separated by a separator.\<close>

definition spec_separated :: "string \<Rightarrow> string list \<Rightarrow> string" where
  "spec_separated sep xs =
     (case xs of [] \<Rightarrow> [] | x # ys \<Rightarrow> x @ concat (map (\<lambda>y. sep @ y) ys))"

text \<open>CSV: a value containing a comma, a double quote or a newline is wrapped in double
  quotes with its double quotes doubled; a null or missing value is an empty field; the
  header line names the columns of the first row, and one line per row follows; an empty
  table gives the empty string.\<close>

definition spec_csv_escape :: "string \<Rightarrow> string" where
  "spec_csv_escape s =
     (if CHR '','' \<in> set s \<or> dquote \<in> set s \<or> newline \<in> set s
      then [dquote] @ concat (map (\<lambda>ch. if ch = dquote then [dquote, dquote] else [ch]) s)
           @ [dquote]
      else s)"

definition spec_csv_field :: "cell option \<Rightarrow> string" where
  "spec_csv_field v =
     (case v of
        None \<Rightarrow> []
      | Some c \<Rightarrow> if c = CNull then [] else spec_csv_escape (js_String_cell c))"

definition spec_csv :: "row list \<Rightarrow> string" where
  "spec_csv rows =
     (case rows of
        [] \<Rightarrow> []
      | first # rest \<Rightarrow>
          let columns = map fst first
          in spec_separated [newline]
               (spec_separated '','' columns #
                map (\<lambda>r. spec_separated '',''
                            (map (\<lambda>col. spec_csv_field (map_of r col)) columns))
                    rows))"

text \<open>JSON: a pretty-printed array of row objects, one member per line, rows indented by
  two spaces and members by four; a null value is written \<open>null\<close>; an empty table gives
  \<open>[]\<close>.\<close>

definition spec_json_value :: "cell \<Rightarrow> string" where
  "spec_json_value c = (if c = CNull then ''null'' else SerializeJSONProperty c)"

definition spec_json_member :: "string \<times> cell \<Rightarrow> string" where
  "spec_json_member m = ''    '' @ QuoteJSONString (fst m) @ '': '' @ spec_json_value (snd m)"

definition spec_json_row :: "row \<Rightarrow> string" where
  "spec_json_row r =
     (if r = [] then ''  {}''
      else ''  {'' @ [newline] @ spec_separated ('','' @ [newline]) (map spec_json_member r)
           @ [newline] @ ''  }'')"

definition spec_json :: "row list \<Rightarrow> string" where
  "spec_json rows =
     (if rows = [] then ''[]''
      else ''['' @ [newline] @ spec_separated ('','' @ [newline]) (map spec_json_row rows)
           @ [newline] @ '']'')"

subsection \<open>The statement of a browse request, in closed form\<close>

text \<open>The filter entries that contribute a condition, the \<open>WHERE\<close> clause they give
  (conditions numbered from \<open>$3\<close>, joined by \<open>AND\<close>) and the parameters they bind.\<close>

definition present_filters :: "(string \<times> jsval) list option \<Rightarrow> (string \<times> jsval) list" where
  "present_filters filters =
     (case filters of None \<Rightarrow> [] | Some entries \<Rightarrow> filter filter_present entries)"

definition where_clause :: "(string \<times> jsval) list option \<Rightarrow> string" where
  "where_clause filters =
     (if present_filters filters = [] then []
      else ''WHERE '' @
           spec_separated '' AND ''
             (map (\<lambda>(i, kv). fst kv @ ''::text ILIKE $'' @ string_of_nat i)
                  (enumerate 3 (present_filters filters))))"

definition filter_values :: "(string \<times> jsval) list option \<Rightarrow> cell list" where
  "filter_values filters =
     map (\<lambda>kv. CStr (''%'' @ js_String (snd kv) @ ''%'')) (present_filters filters)"

subsection \<open>Example scenarios\<close>

text \<open>An engine whose table listing (the statement of \<open>getTables\<close>) names the single
  table \<open>users\<close>, and which answers every other statement with the example result.\<close>

definition listing_result :: query_result_raw where
  "listing_result =
     \<lparr>r_rows = [[(''name'', CStr ''users''), (''schema'', CStr ''public''),
                  (''row_count'', CStr ''3'')]],
      r_rowCount = Some 1,
      r_fields = Some [''name'', ''schema'', ''row_count'']\<rparr>"

definition listing_env :: env where
  "listing_env =
     \<lparr>pool_ctor = (\<lambda>cfg. None),
      engine = (\<lambda>cfg text params.
                  if text = getTables_sql then Answer listing_result 2
                  else Answer example_result 5),
      pool_end_err = (\<lambda>cfg. None)\<rparr>"

text \<open>The registered connection is used once (its databases are listed, which creates
  its pool); then either its host and password are updated, or it is deleted.\<close>

definition example_update :: partial_connection where
  "example_update =
     \<lparr>u_name = None, u_host = Some ''db.new.example'', u_port = None, u_database = None,
      u_username = None, u_password = Some ''new-secret'', u_ssl = None\<rparr>"

definition after_first_use :: storage where
  "after_first_use = snd (getDatabases (steady_env 5) ''uuid-0'' registered)"

definition after_update :: storage where
  "after_update = snd (updateConnection ''uuid-0'' example_update after_first_use)"

definition after_delete :: storage where
  "after_delete = snd (deleteConnection ''uuid-0'' after_first_use)"

section \<open>Properties\<close>

subsection \<open>Auxiliary facts\<close>

lemma getConnectionPool_frame:
  assumes "getConnectionPool E cid s = (out, s1)"
  shows "connections s1 = connections s" and "queryHistory s1 = queryHistory s"
    and "uuid_count s1 = uuid_count s" and "clock s1 = clock s" and "sent s1 = sent s"
    and "ended s1 = ended s"
  using assms
  by (auto simp: getConnectionPool_def getConnection_def new_Pool_def
           split: option.splits prod.splits outcome.splits)

lemma saveQueryHistory_Returns:
  assumes "saveQueryHistory history s = (Returns saved, s')"
  shows "queryHistory s' = queryHistory s @ [saved]"
    and "h_connectionId saved = ih_connectionId history"
    and "h_query saved = ih_query history"
    and "h_executionTime saved = ih_executionTime history"
    and "h_rowsAffected saved = ih_rowsAffected history"
    and "h_success saved = ih_success history"
  using assms
  by (auto simp: saveQueryHistory_def Let_def split: if_splits)

lemma executeQuery_Answer:
  assumes acq: "getConnectionPool E cid s = (Returns pool, s1)"
      and reg: "connections s cid = Some c"
      and ans: "engine E (pool_cfg pool) query [] = Answer result d"
      and time: "d \<le> integer_max"
      and count: "rowCount_or_0 result \<le> integer_max"
  shows "executeQuery E cid query s =
           (Returns \<lparr>qr_rows = r_rows result, qr_rowCount = rowCount_or_0 result,
                     qr_executionTime = d, qr_columns = field_names result\<rparr>,
            s1\<lparr>sent := sent s1 @ [(pool_id pool, query, [])],
               clock := clock s1 + d,
               queryHistory := queryHistory s1 @
                 [\<lparr>h_id = gen_random_uuid (uuid_count s1), h_connectionId = Some cid,
                   h_query = query, h_executionTime = Some d,
                   h_rowsAffected = Some (rowCount_or_0 result), h_success = True,
                   h_error = None, h_createdAt = Some (clock s1 + d)\<rparr>],
               uuid_count := Suc (uuid_count s1)\<rparr>)"
proof -
  have c1: "connections s1 cid = Some c"
    using getConnectionPool_frame(1)[OF acq] reg by simp
  show ?thesis
    using time count
    by (simp add: executeQuery_def acq pool_query_def ans saveQueryHistory_def c1 Let_def
        fits_integer_def)
qed




lemma executeQuery_catch_Throws:
  "\<exists>t. fst (executeQuery_catch cid query st err s) = Throws t"
  by (simp add: executeQuery_catch_def saveQueryHistory_def Let_def split: if_splits)

text \<open>Evaluating the example inputs.\<close>

lemma string_of_nat_digit: "n < 10 \<Longrightarrow> string_of_nat n = [digit_char n]"
  by (simp add: string_of_nat.simps)

lemma gen_random_uuid_0: "gen_random_uuid 0 = ''uuid-0''"
  by (simp add: gen_random_uuid_def string_of_nat_digit digit_char_def)

lemma registered_eq:
  "registered =
     \<lparr>connections =
        [''uuid-0'' \<mapsto>
           \<lparr>c_id = ''uuid-0'', c_name = ''main'', c_host = ''db.old.example'', c_port = 5432,
            c_database = ''app'', c_username = ''admin'', c_password = ''old-secret'',
            c_ssl = Some False, c_createdAt = Some 1000, c_updatedAt = Some 1000\<rparr>],
      queryHistory = [], connectionPools = Map.empty,
      pool_count = 0, ended = [], sent = [], clock = 1000, uuid_count = 1\<rparr>"
  by (simp add: registered_def createConnection_def example_insert_def empty_storage_def
      gen_random_uuid_0 Let_def)

subsection \<open>Credentials are tested without touching the pool map\<close>

text \<open>
  Claim C8.  For every input record and every behaviour of the outside world, on the
  success path and on each failure path, \<open>testConnection\<close> leaves the map
  \<open>connectionPools\<close> exactly as it was: no entry is inserted, removed or replaced.
\<close>

theorem testConnection_keeps_connectionPools:
  "connectionPools (snd (testConnection E connection s)) = connectionPools s"
  by (simp add: testConnection_def new_Pool_def pool_query_def pool_end_def
           split: option.splits reply.splits)

theorem testConnection_keeps_connectionPools_witness:
  "connectionPools (snd (testConnection (steady_env 5) example_insert registered)) = Map.empty
   \<and> connectionPools (snd (testConnection rejecting_env example_insert registered)) = Map.empty"
  using testConnection_keeps_connectionPools [of "steady_env 5" example_insert registered]
        testConnection_keeps_connectionPools [of rejecting_env example_insert registered]
  by (simp add: registered_eq)

text \<open>
  Claim C10.  \<open>testConnection\<close> never throws: for every input record and every
  behaviour of the outside world it returns a boolean, and the boolean is \<open>true\<close>
  exactly when constructing the pool did not throw, the engine answered the liveness
  statement \<open>SELECT 1\<close>, and ending the pool did not throw.  So an error at any of the
  three steps gives \<open>false\<close>, and \<open>true\<close> is returned only when \<open>SELECT 1\<close>
  succeeded.
\<close>

theorem testConnection_returns_boolean:
  "fst (testConnection E connection s) =
     Returns (pool_ctor E (config_of_insert connection) = None
              \<and> answers (engine E (config_of_insert connection) ''SELECT 1'' [])
              \<and> pool_end_err E (config_of_insert connection) = None)"
  by (simp add: testConnection_def new_Pool_def pool_query_def pool_end_def answers_def
           split: option.splits reply.splits)

theorem testConnection_returns_boolean_witness:
  "fst (testConnection (steady_env 5) example_insert registered) = Returns True
   \<and> fst (testConnection rejecting_env example_insert registered) = Returns False"
  using testConnection_returns_boolean [of "steady_env 5" example_insert registered]
        testConnection_returns_boolean [of rejecting_env example_insert registered]
  by (simp add: steady_env_def rejecting_env_def answers_def)

subsection \<open>History entries of successful statements\<close>

text \<open>
  Claim C9.  Whenever \<open>executeQuery\<close> returns a result, the history table has grown
  by exactly one entry; that entry is for the same connection id and statement, is marked
  successful, its \<open>rowsAffected\<close> is the result's \<open>rowCount\<close> and its
  \<open>executionTime\<close> is the result's \<open>executionTime\<close>.
\<close>

theorem executeQuery_history_matches_result:
  assumes "executeQuery E connectionId query s = (Returns r, s')"
  shows "\<exists>e. queryHistory s' = queryHistory s @ [e]
             \<and> h_connectionId e = Some connectionId \<and> h_query e = query \<and> h_success e
             \<and> h_rowsAffected e = Some (qr_rowCount r)
             \<and> h_executionTime e = Some (qr_executionTime r)"
proof -
  obtain out s1 where g: "getConnectionPool E connectionId s = (out, s1)"
    by (cases "getConnectionPool E connectionId s")
  from assms g obtain pool where out: "out = Returns pool"
    by (cases out) (auto simp: executeQuery_def)
  note fr = getConnectionPool_frame[OF g]
  show ?thesis
  proof (cases "engine E (pool_cfg pool) query []")
    case (Answer result d)
    let ?s2 = "s1\<lparr>sent := sent s1 @ [(pool_id pool, query, [])], clock := clock s1 + d\<rparr>"
    let ?h = "\<lparr>ih_connectionId = Some connectionId, ih_query = query,
               ih_executionTime = Some d, ih_rowsAffected = Some (rowCount_or_0 result),
               ih_success = True, ih_error = None\<rparr>"
    obtain o3 s3 where sv: "saveQueryHistory ?h ?s2 = (o3, s3)"
      by (cases "saveQueryHistory ?h ?s2")
    show ?thesis
    proof (cases o3)
      case (Throws t)
      with assms g out Answer sv executeQuery_catch_Throws show ?thesis
        apply (simp add: executeQuery_def pool_query_def Let_def)
        by (metis fst_conv outcome.distinct(1))
    next
      case (Returns saved)
      with assms g out Answer sv
      have r: "r = \<lparr>qr_rows = r_rows result, qr_rowCount = rowCount_or_0 result,
                     qr_executionTime = d, qr_columns = field_names result\<rparr>"
        and s': "s' = s3"
        by (simp_all add: executeQuery_def pool_query_def Let_def)
      from saveQueryHistory_Returns[OF sv[unfolded Returns]] fr(2)
      show ?thesis by (simp add: r s')
    qed
  next
    case (Reject t d)
    with assms g out executeQuery_catch_Throws show ?thesis
      apply (simp add: executeQuery_def pool_query_def Let_def)
      by (metis fst_conv outcome.distinct(1))
  qed
qed

subsection \<open>Exported text\<close>

lemma join_separated: "join sep xs = spec_separated sep xs"
  by (induction sep xs rule: join.induct) (simp_all add: spec_separated_def)

lemma str_includes_single: "str_includes s [c] = (c \<in> set s)"
  by (induction s) auto

lemma replace_quotes_concat:
  "replace_quotes s = concat (map (\<lambda>ch. if ch = dquote then [dquote, dquote] else [ch]) s)"
  by (induction s) auto

lemma csv_forEach_map:
  "csv_forEach headers rows acc = acc @ map (\<lambda>r. join '','' (map (csv_value r) headers)) rows"
  by (induction rows arbitrary: acc) auto

lemma csv_value_field: "csv_value r header = spec_csv_field (map_of r header)"
  by (cases "map_of r header")
     (simp_all add: csv_value_def row_get_def spec_csv_field_def spec_csv_escape_def
        str_includes_single replace_quotes_concat Let_def)

lemma csv_value_fun: "csv_value r = (\<lambda>header. spec_csv_field (map_of r header))"
  by (rule ext) (rule csv_value_field)

lemma export_csv_spec: "export_csv rows = spec_csv rows"
  by (cases rows)
     (simp_all add: export_csv_def spec_csv_def csv_forEach_map join_separated csv_value_fun
        Let_def)

lemma indented_join:
  "xs \<noteq> [] \<Longrightarrow> ind @ join (sep @ ind) xs = spec_separated sep (map (\<lambda>x. ind @ x) xs)"
proof -
  have assoc: "(@) (sep @ ind) = (\<lambda>y. sep @ ind @ y)"
    by (rule ext) simp
  assume "xs \<noteq> []"
  then show ?thesis
    by (cases xs) (simp_all add: join_separated spec_separated_def comp_def assoc)
qed

lemma json_value_spec: "SerializeJSONProperty c = spec_json_value c"
  by (cases c) (simp_all add: spec_json_value_def)

lemma json_row_spec: "''  '' @ SerializeJSONObject r ''  '' = spec_json_row r"
proof (cases "r = []")
  case True
  then show ?thesis by (simp add: SerializeJSONObject_def spec_json_row_def)
next
  case False
  let ?members = "map (\<lambda>(k, v). QuoteJSONString k @ '':'' @ '' '' @ SerializeJSONProperty v) r"
  have ne: "?members \<noteq> []" using False by simp
  have "''    '' @ join (('','' @ [newline]) @ ''    '') ?members
          = spec_separated ('','' @ [newline]) (map (\<lambda>x. ''    '' @ x) ?members)"
    by (rule indented_join[OF ne])
  also have "map (\<lambda>x. ''    '' @ x) ?members = map spec_json_member r"
    by (simp add: spec_json_member_def json_value_spec case_prod_unfold)
  finally show ?thesis using False
    by (simp add: SerializeJSONObject_def spec_json_row_def gap_def Let_def)
qed

lemma export_json_spec: "export_json rows = spec_json rows"
proof (cases "rows = []")
  case True
  then show ?thesis by (simp add: export_json_def SerializeJSONArray_def spec_json_def)
next
  case False
  let ?objs = "map (\<lambda>r. SerializeJSONObject r ''  '') rows"
  have ne: "?objs \<noteq> []" using False by simp
  have "''  '' @ join (('','' @ [newline]) @ ''  '') ?objs
          = spec_separated ('','' @ [newline]) (map (\<lambda>x. ''  '' @ x) ?objs)"
    by (rule indented_join[OF ne])
  also have "map (\<lambda>x. ''  '' @ x) ?objs = map spec_json_row rows"
    using json_row_spec by (simp add: comp_def)
  finally show ?thesis using False
    by (simp add: export_json_def SerializeJSONArray_def spec_json_def gap_def Let_def)
qed

lemma spec_csv_example:
  "spec_csv [[(''id'', CInt 1), (''name'', CStr ''A,B'')]]
     = ''id,name'' @ [newline] @ ''1,'' @ [dquote] @ ''A,B'' @ [dquote]"
  by (simp add: spec_csv_def spec_separated_def spec_csv_field_def spec_csv_escape_def
      string_of_int_def string_of_nat.simps digit_char_def dquote_def newline_def)

lemma acquire_registered:
  "pool_ctor E example_config = None \<Longrightarrow>
   getConnectionPool E ''uuid-0'' registered =
     (Returns example_pool,
      registered\<lparr>pool_count := 1, connectionPools := [''uuid-0'' \<mapsto> example_pool]\<rparr>)"
  by (simp add: getConnectionPool_def getConnection_def registered_eq new_Pool_def
      config_of_connection_def example_config_def example_pool_def)

text \<open>
  Claim C7.  When the pool is acquired and the engine answers the export statement with
  \<open>result\<close>, the text \<open>exportTableData\<close> returns is the specified serialisation of
  the fetched rows: for JSON the pretty-printed array of row objects, with null values
  written \<open>null\<close> and an empty table giving \<open>[]\<close>; for CSV the header line of the first
  row's column names followed by one line per row, null and missing values giving an
  empty field, values containing a comma, a double quote or a newline wrapped in double
  quotes with inner double quotes doubled, and an empty table giving the empty string.
  The single row \<open>{id: 1, name: 'A,B'}\<close> gives the header \<open>id,name\<close> and the line
  \<open>1,"A,B"\<close>.
\<close>

theorem exportTableData_serialization:
  assumes acq: "getConnectionPool E connectionId s = (Returns pool, s1)"
      and ans: "engine E (pool_cfg pool) (''SELECT * FROM '' @ table) [] = Answer result d"
  shows "fst (exportTableData E connectionId database table Json s)
           = Returns (spec_json (r_rows result))
       \<and> fst (exportTableData E connectionId database table Csv s)
           = Returns (spec_csv (r_rows result))
       \<and> spec_json [] = ''[]''
       \<and> spec_csv [] = []
       \<and> spec_csv [[(''id'', CInt 1), (''name'', CStr ''A,B'')]]
           = ''id,name'' @ [newline] @ ''1,'' @ [dquote] @ ''A,B'' @ [dquote]"
proof -
  have json: "fst (exportTableData E connectionId database table Json s)
                = Returns (spec_json (r_rows result))"
    using ans
    by (simp add: exportTableData_def acq pool_query_def serialize_rows_def
        export_json_spec)
  have csv: "fst (exportTableData E connectionId database table Csv s)
               = Returns (spec_csv (r_rows result))"
    using ans
    by (simp add: exportTableData_def acq pool_query_def serialize_rows_def
        export_csv_spec)
  have e1: "spec_json [] = ''[]''" by (simp add: spec_json_def)
  have e2: "spec_csv [] = []" by (simp add: spec_csv_def)
  from json csv e1 e2 spec_csv_example show ?thesis by blast
qed

theorem exportTableData_serialization_witness:
  "fst (exportTableData (steady_env 5) ''uuid-0'' ''app'' ''orders'' Csv registered)
     = Returns (''id,name'' @ [newline] @ ''1,'' @ [dquote] @ ''A,B'' @ [dquote])
   \<and> fst (exportTableData (steady_env 5) ''uuid-0'' ''app'' ''orders'' Json registered)
     = Returns (''['' @ [newline] @
                ''  {'' @ [newline] @
                ''    '' @ [dquote] @ ''id'' @ [dquote] @ '': 1,'' @ [newline] @
                ''    '' @ [dquote] @ ''name'' @ [dquote] @ '': '' @ [dquote] @ ''A,B''
                   @ [dquote] @ [newline] @
                ''  }'' @ [newline] @
                '']'')"
proof -
  have acq: "getConnectionPool (steady_env 5) ''uuid-0'' registered =
               (Returns example_pool,
                registered\<lparr>pool_count := 1, connectionPools := [''uuid-0'' \<mapsto> example_pool]\<rparr>)"
    by (rule acquire_registered) (simp add: steady_env_def)
  have ans: "engine (steady_env 5) (pool_cfg example_pool) (''SELECT * FROM '' @ ''orders'') []
               = Answer example_result 5"
    by (simp add: steady_env_def)
  have json: "spec_json example_rows =
                ''['' @ [newline] @
                ''  {'' @ [newline] @
                ''    '' @ [dquote] @ ''id'' @ [dquote] @ '': 1,'' @ [newline] @
                ''    '' @ [dquote] @ ''name'' @ [dquote] @ '': '' @ [dquote] @ ''A,B''
                   @ [dquote] @ [newline] @
                ''  }'' @ [newline] @
                '']''"
    by (simp add: example_rows_def spec_json_def spec_json_row_def spec_json_member_def
        spec_json_value_def spec_separated_def QuoteJSONString_def json_quote_char_def
        string_of_int_def string_of_nat.simps digit_char_def dquote_def newline_def
        backslash_def)
  have rows: "r_rows example_result = example_rows"
    by (simp add: example_result_def)
  from exportTableData_serialization [OF acq ans, of "''app''"]
  show ?thesis
    by (simp only: rows json) (simp add: example_rows_def)
qed

subsection \<open>More facts about the example state\<close>


lemma registered_record:
  "connections registered ''uuid-0'' =
     Some \<lparr>c_id = ''uuid-0'', c_name = ''main'', c_host = ''db.old.example'', c_port = 5432,
            c_database = ''app'', c_username = ''admin'', c_password = ''old-secret'',
            c_ssl = Some False, c_createdAt = Some 1000, c_updatedAt = Some 1000\<rparr>"
  by (simp add: registered_eq)

lemma after_first_use_eq:
  "after_first_use =
     registered\<lparr>pool_count := 1, connectionPools := [''uuid-0'' \<mapsto> example_pool],
       sent := [(0, ''SELECT datname FROM pg_database WHERE datistemplate = false'', [])],
       clock := 1005\<rparr>"
proof -
  have acq: "getConnectionPool (steady_env 5) ''uuid-0'' registered =
               (Returns example_pool,
                registered\<lparr>pool_count := 1, connectionPools := [''uuid-0'' \<mapsto> example_pool]\<rparr>)"
    by (rule acquire_registered) (simp add: steady_env_def)
  show ?thesis
    by (simp add: after_first_use_def getDatabases_def acq)
       (simp add: steady_env_def pool_query_def example_pool_def registered_eq)
qed

lemma getTables_sql_not_select: "(CHR ''S'' # rest = getTables_sql) = False"
  by (simp add: getTables_sql_def newline_def)

subsection \<open>History entries of successful statements, at an example\<close>

theorem executeQuery_history_matches_result_witness:
  "\<exists>e. queryHistory (snd (executeQuery (steady_env 5) ''uuid-0'' ''SELECT 1'' registered)) = [e]
       \<and> h_rowsAffected e = Some 1 \<and> h_executionTime e = Some 5 \<and> h_success e"
proof -
  have acq: "getConnectionPool (steady_env 5) ''uuid-0'' registered =
               (Returns example_pool,
                registered\<lparr>pool_count := 1, connectionPools := [''uuid-0'' \<mapsto> example_pool]\<rparr>)"
    by (rule acquire_registered) (simp add: steady_env_def)
  have ans: "engine (steady_env 5) (pool_cfg example_pool) ''SELECT 1'' []
               = Answer example_result 5"
    by (simp add: steady_env_def)
  have time: "5 \<le> integer_max" by (simp add: integer_max_def)
  have count: "rowCount_or_0 example_result \<le> integer_max"
    by (simp add: rowCount_or_0_def example_result_def integer_max_def)
  have h0: "queryHistory registered = []" by (simp add: registered_eq)
  note run = executeQuery_Answer[OF acq registered_record ans time count]
  from executeQuery_history_matches_result[OF run] h0
  show ?thesis
    by (simp add: run example_result_def rowCount_or_0_def)
qed

subsection \<open>The statement of a browse request\<close>

lemma conditions_map_closed:
  "conditions_map es pc vals =
     (map (\<lambda>(i, kv). fst kv @ ''::text ILIKE $'' @ string_of_nat i) (enumerate (Suc pc) es),
      pc + length es,
      vals @ map (\<lambda>kv. CStr (''%'' @ js_String (snd kv) @ ''%'')) es)"
proof (induction es arbitrary: pc vals)
  case Nil
  then show ?case by simp
next
  case (Cons e es)
  obtain k v where e: "e = (k, v)" by (cases e)
  show ?case
    by (simp add: e Cons.IH)
qed

lemma enumerate_eq_Nil: "(enumerate n xs = []) = (xs = [])"
  by (cases xs) simp_all

text \<open>Every filter entry whose value is neither \<open>undefined\<close> nor the empty string
  contributes one condition \<open>key::text ILIKE $n\<close> and one bound parameter
  \<open>%value%\<close>; the conditions are joined by \<open>AND\<close>; the other entries contribute
  nothing; the table name and the keys are spliced into the text as they are.\<close>

lemma table_query_closed:
  "table_query table offset limit filters =
     (''SELECT * FROM '' @ table @ '' '' @ where_clause filters @ '' LIMIT $1 OFFSET $2'',
      [CInt limit, CInt offset] @ filter_values filters)"
proof (cases filters)
  case None
  then show ?thesis
    by (simp add: table_query_def where_clause_def filter_values_def present_filters_def)
next
  case (Some entries)
  have three: "Suc 2 = 3" by simp
  show ?thesis
  proof (cases "filter filter_present entries = []")
    case True
    then have "entries = [] \<or> entries \<noteq> []" by simp
    with True Some show ?thesis
      by (auto simp: table_query_def where_clause_def filter_values_def present_filters_def
          conditions_map_closed Let_def)
  next
    case False
    then have "entries \<noteq> []" by auto
    with False Some show ?thesis
      by (simp add: table_query_def where_clause_def filter_values_def present_filters_def
          conditions_map_closed Let_def join_separated three enumerate_eq_Nil)
  qed
qed

subsection \<open>Identifiers in generated statements\<close>

text \<open>
  Claim C1, as the code has it.  \<open>getTableData\<close> and \<open>exportTableData\<close> do not check
  the table identifier or the filter keys against any listing.  When the pool cannot be
  acquired both fail with the error of the acquisition and no statement is sent.  When it
  is acquired, exactly one statement is sent, with no introspection statement before it:
  the text with the table identifier and every present filter key spliced in as given,
  and whether the call returns or throws is decided by the engine's reply to that
  statement alone.
\<close>

theorem table_identifiers_spliced_unchecked:
  "(case getConnectionPool E connectionId s of
      (Throws t, s1) \<Rightarrow>
        getTableData E connectionId database table offset limit filters s = (Throws t, s1)
        \<and> exportTableData E connectionId database table format s = (Throws t, s1)
        \<and> sent s1 = sent s
    | (Returns pool, s1) \<Rightarrow>
        sent (snd (getTableData E connectionId database table offset limit filters s))
          = sent s @ [(pool_id pool,
                       ''SELECT * FROM '' @ table @ '' '' @ where_clause filters
                         @ '' LIMIT $1 OFFSET $2'',
                       [CInt limit, CInt offset] @ filter_values filters)]
        \<and> fst (getTableData E connectionId database table offset limit filters s)
          = (case engine E (pool_cfg pool)
                    (''SELECT * FROM '' @ table @ '' '' @ where_clause filters
                       @ '' LIMIT $1 OFFSET $2'')
                    ([CInt limit, CInt offset] @ filter_values filters) of
               Answer result d \<Rightarrow>
                 Returns \<lparr>qr_rows = r_rows result, qr_rowCount = rowCount_or_0 result,
                          qr_executionTime = d, qr_columns = field_names result\<rparr>
             | Reject err d \<Rightarrow> Throws err)
        \<and> sent (snd (exportTableData E connectionId database table format s))
          = sent s @ [(pool_id pool, ''SELECT * FROM '' @ table, [])]
        \<and> fst (exportTableData E connectionId database table format s)
          = (case engine E (pool_cfg pool) (''SELECT * FROM '' @ table) [] of
               Answer result d \<Rightarrow> Returns (serialize_rows format (r_rows result))
             | Reject err d \<Rightarrow> Throws err))"
proof -
  obtain out s1 where g: "getConnectionPool E connectionId s = (out, s1)"
    by (cases "getConnectionPool E connectionId s")
  note fr = getConnectionPool_frame(5)[OF g]
  show ?thesis
  proof (cases out)
    case (Throws t)
    with g fr show ?thesis
      by (simp add: getTableData_def exportTableData_def)
  next
    case (Returns pool)
    let ?text = "''SELECT * FROM '' @ table @ '' '' @ where_clause filters
                   @ '' LIMIT $1 OFFSET $2''"
    let ?params = "[CInt limit, CInt offset] @ filter_values filters"
    have a: "sent (snd (getTableData E connectionId database table offset limit filters s))
          = sent s @ [(pool_id pool, ?text, ?params)]"
      using g Returns fr
      by (simp add: getTableData_def table_query_closed pool_query_def
          split: reply.splits)
    have a': "fst (getTableData E connectionId database table offset limit filters s)
          = (case engine E (pool_cfg pool) ?text ?params of
               Answer result d \<Rightarrow>
                 Returns \<lparr>qr_rows = r_rows result, qr_rowCount = rowCount_or_0 result,
                          qr_executionTime = d, qr_columns = field_names result\<rparr>
             | Reject err d \<Rightarrow> Throws err)"
      using g Returns
      by (simp add: getTableData_def table_query_closed pool_query_def
          split: reply.splits)
    have b: "sent (snd (exportTableData E connectionId database table format s))
          = sent s @ [(pool_id pool, ''SELECT * FROM '' @ table, [])]"
      using g Returns fr
      by (simp add: exportTableData_def pool_query_def split: reply.splits)
    have b': "fst (exportTableData E connectionId database table format s)
          = (case engine E (pool_cfg pool) (''SELECT * FROM '' @ table) [] of
               Answer result d \<Rightarrow> Returns (serialize_rows format (r_rows result))
             | Reject err d \<Rightarrow> Throws err)"
      using g Returns
      by (simp add: exportTableData_def pool_query_def split: reply.splits)
    from a a' b b' g Returns show ?thesis by simp
  qed
qed

theorem table_identifiers_spliced_unchecked_witness:
  "sent (snd (getTableData listing_env ''uuid-0'' ''app'' ''users'' 0 25
               (Some [(''name'', Val (CStr ''ann'')), (''city'', Val (CStr []))]) registered))
     = [(0, ''SELECT * FROM users WHERE name::text ILIKE $3 LIMIT $1 OFFSET $2'',
         [CInt 25, CInt 0, CStr ''%ann%''])]
   \<and> sent (snd (exportTableData listing_env ''uuid-0'' ''app'' ''users'' Json registered))
     = [(0, ''SELECT * FROM users'', [])]"
proof -
  have acq: "getConnectionPool listing_env ''uuid-0'' registered =
               (Returns example_pool,
                registered\<lparr>pool_count := 1, connectionPools := [''uuid-0'' \<mapsto> example_pool]\<rparr>)"
    by (rule acquire_registered) (simp add: listing_env_def)
  have s0: "sent registered = []" by (simp add: registered_eq)
  from table_identifiers_spliced_unchecked
         [where E = listing_env and connectionId = "''uuid-0''" and s = registered
          and database = "''app''" and table = "''users''" and offset = 0 and limit = 25
          and filters = "Some [(''name'', Val (CStr ''ann'')), (''city'', Val (CStr []))]"
          and format = Json]
  show ?thesis
    by (simp add: acq s0 where_clause_def filter_values_def present_filters_def
        filter_present_def spec_separated_def string_of_nat.simps digit_char_def
        example_pool_def)
qed

text \<open>
  Claim C1, as stated, fails.  The engine's table listing for the connection names only
  \<open>users\<close>.  Browsing and exporting the identifier \<open>pg_shadow; --\<close>, which is not in
  the listing, do not fail: the identifier is spliced into the statement, the statement is
  sent to the engine as the first and only statement, and the engine's rows are returned.
\<close>

theorem unlisted_table_is_queried:
  "fst (getTables listing_env ''uuid-0'' ''app'' registered)
     = Returns [\<lparr>t_name = Val (CStr ''users''), t_schema = Val (CStr ''public''),
                 t_rowCount = 3\<rparr>]
   \<and> fst (getTableData listing_env ''uuid-0'' ''app'' ''pg_shadow; --'' 0 25 None registered)
     = Returns \<lparr>qr_rows = example_rows, qr_rowCount = 1, qr_executionTime = 5,
                qr_columns = [''id'', ''name'']\<rparr>
   \<and> sent (snd (getTableData listing_env ''uuid-0'' ''app'' ''pg_shadow; --'' 0 25 None
                  registered))
     = [(0, ''SELECT * FROM pg_shadow; --  LIMIT $1 OFFSET $2'', [CInt 25, CInt 0])]
   \<and> fst (exportTableData listing_env ''uuid-0'' ''app'' ''pg_shadow; --'' Csv registered)
     = Returns (''id,name'' @ [newline] @ ''1,'' @ [dquote] @ ''A,B'' @ [dquote])
   \<and> sent (snd (exportTableData listing_env ''uuid-0'' ''app'' ''pg_shadow; --'' Csv
                  registered))
     = [(0, ''SELECT * FROM pg_shadow; --'', [])]"
proof -
  have acq: "getConnectionPool listing_env ''uuid-0'' registered =
               (Returns example_pool,
                registered\<lparr>pool_count := 1, connectionPools := [''uuid-0'' \<mapsto> example_pool]\<rparr>)"
    by (rule acquire_registered) (simp add: listing_env_def)
  have t: "fst (getTables listing_env ''uuid-0'' ''app'' registered)
     = Returns [\<lparr>t_name = Val (CStr ''users''), t_schema = Val (CStr ''public''),
                 t_rowCount = 3\<rparr>]"
    by (simp add: getTables_def acq)
       (simp add: pool_query_def listing_env_def listing_result_def
        row_get_def parseInt_def is_space_def digit_of_def index_of_def Let_def)
  have d: "getTableData listing_env ''uuid-0'' ''app'' ''pg_shadow; --'' 0 25 None registered
     = (Returns \<lparr>qr_rows = example_rows, qr_rowCount = 1, qr_executionTime = 5,
                qr_columns = [''id'', ''name'']\<rparr>,
        registered\<lparr>pool_count := 1, connectionPools := [''uuid-0'' \<mapsto> example_pool],
           sent := [(0, ''SELECT * FROM pg_shadow; --  LIMIT $1 OFFSET $2'', [CInt 25, CInt 0])],
           clock := 1005\<rparr>)"
    by (simp add: getTableData_def acq)
       (simp add: pool_query_def listing_env_def table_query_def
        getTables_sql_not_select example_result_def rowCount_or_0_def field_names_def
        example_pool_def registered_eq)
  have e: "exportTableData listing_env ''uuid-0'' ''app'' ''pg_shadow; --'' Csv registered
     = (Returns (''id,name'' @ [newline] @ ''1,'' @ [dquote] @ ''A,B'' @ [dquote]),
        registered\<lparr>pool_count := 1, connectionPools := [''uuid-0'' \<mapsto> example_pool],
           sent := [(0, ''SELECT * FROM pg_shadow; --'', [])],
           clock := 1005\<rparr>)"
    using spec_csv_example
    by (simp add: exportTableData_def acq)
       (simp add: pool_query_def listing_env_def
        getTables_sql_not_select example_result_def example_rows_def serialize_rows_def
        export_csv_spec example_pool_def registered_eq)
  show ?thesis by (simp add: t d e)
qed

subsection \<open>The search box of the client\<close>

text \<open>
  Claim C2, at its example.  The client sends a search for \<open>admin\<close> in column
  \<open>username\<close> as the query parameters \<open>search\<close> and \<open>column\<close>; the route passes
  both on as filters; \<open>getTableData\<close> takes each filter key for a column name.  The
  statement has two \<open>ILIKE\<close> conditions, on columns named \<open>search\<close> and \<open>column\<close>,
  bound to \<open>%admin%\<close> and \<open>%username%\<close>, not the one condition on \<open>username\<close>.
\<close>

theorem search_column_filters_statement:
  "route_filters
     (client_params \<lparr>o_offset = None, o_limit = Some 25, o_search = Some ''admin'',
                     o_column = Some ''username'', o_sort = None\<rparr>)
     = [(''search'', Val (CStr ''admin'')), (''column'', Val (CStr ''username''))]
   \<and> table_query ''users'' 0 25
       (Some [(''search'', Val (CStr ''admin'')), (''column'', Val (CStr ''username''))])
     = (''SELECT * FROM users WHERE search::text ILIKE $3 AND column::text ILIKE $4 LIMIT $1 OFFSET $2'',
        [CInt 25, CInt 0, CStr ''%admin%'', CStr ''%username%''])"
  by (simp add: route_filters_def client_params_def truthy_number_def truthy_string_def
      table_query_def filter_present_def string_of_nat.simps digit_char_def Let_def)

subsection \<open>Elapsed time of a statement\<close>




subsection \<open>One history entry per executed statement\<close>




subsection \<open>Pools after an update and after a deletion\<close>

text \<open>What \<open>updateConnection\<close> and \<open>deleteConnection\<close> do to the pools, in general:
  an update does not touch the pool map; a deletion removes the entry of the id and ends
  no pool; after a deletion that completed, acquiring a pool for the id fails.\<close>

lemma updateConnection_keeps_connectionPools:
  "connectionPools (snd (updateConnection cid upd s)) = connectionPools s"
  by (simp add: updateConnection_def Let_def split: option.splits)

lemma deleteConnection_pool_entry:
  "connectionPools (snd (deleteConnection cid s)) cid = None"
  by (simp add: deleteConnection_def Let_def)

lemma deleteConnection_ends_nothing:
  "ended (snd (deleteConnection cid s)) = ended s"
  and "pool_count (snd (deleteConnection cid s)) = pool_count s"
  by (simp_all add: deleteConnection_def Let_def)

lemma acquire_after_deleteConnection:
  "deleteConnection cid s = (Returns (), s') \<Longrightarrow>
   getConnectionPool E cid s' = (Throws (Error ''Connection not found''), s')"
  by (auto simp: deleteConnection_def getConnectionPool_def getConnection_def Let_def
           split: if_splits)

text \<open>
  Claim C5, at a failing input.  A connection is registered with host
  \<open>db.old.example\<close> and used once; then its host and password are updated.  The record
  now has the new host and password, but the pool acquired for the id is still the first
  pool, built from the old host and the old password, and the next statement is sent
  through it; no second pool is ever constructed.
\<close>

theorem updated_credentials_reuse_old_pool:
  "fst (getConnectionPool (steady_env 5) ''uuid-0'' after_update) = Returns example_pool
   \<and> pc_host (pool_cfg example_pool) = ''db.old.example''
   \<and> pc_password (pool_cfg example_pool) = ''old-secret''
   \<and> map_option c_host (connections after_update ''uuid-0'') = Some ''db.new.example''
   \<and> map_option c_password (connections after_update ''uuid-0'') = Some ''new-secret''
   \<and> sent (snd (executeQuery (steady_env 5) ''uuid-0'' ''SELECT 1'' after_update))
       = [(0, ''SELECT datname FROM pg_database WHERE datistemplate = false'', []),
          (0, ''SELECT 1'', [])]
   \<and> pool_count (snd (executeQuery (steady_env 5) ''uuid-0'' ''SELECT 1'' after_update)) = 1"
  by (simp add: after_update_def updateConnection_def after_first_use_eq registered_eq
      example_update_def getConnectionPool_def example_pool_def example_config_def
      executeQuery_def pool_query_def steady_env_def saveQueryHistory_def Let_def
      fits_integer_def integer_max_def example_result_def rowCount_or_0_def)

text \<open>
  Claim C6, at a failing input.  A connection is registered and used once, so that it has
  a live pool, and is then deleted.  The deletion completes; the entry of the pool map and
  the record are gone, and acquiring a pool for the id fails with
  \<open>Connection not found\<close>.  But the pool itself has not been ended: it is as live after
  the deletion as it was before.
\<close>

theorem deleted_connection_pool_never_ended:
  "deleteConnection ''uuid-0'' after_first_use = (Returns (), after_delete)
   \<and> connectionPools after_delete ''uuid-0'' = None
   \<and> connections after_delete ''uuid-0'' = None
   \<and> fst (getConnectionPool (steady_env 5) ''uuid-0'' after_delete)
        = Throws (Error ''Connection not found'')
   \<and> connectionPools after_first_use ''uuid-0'' = Some example_pool
   \<and> pool_id example_pool = 0
   \<and> live_pools after_first_use = [0]
   \<and> live_pools after_delete = [0]
   \<and> ended after_delete = []"
  by (simp add: after_delete_def deleteConnection_def after_first_use_eq registered_eq
      getConnectionPool_def getConnection_def live_pools_def example_pool_def Let_def)

end
